theory Spec2Isabelle
  imports Main
begin

unbundle bit_operations_syntax

section \<open>Errors\<close>

text \<open>
  The exceptions of \<^verbatim>\<open>server.py\<close> that the modelled methods raise. \<^verbatim>\<open>Forbidden\<close> is the
  program's own class (derived from \<^verbatim>\<open>OperationFailed\<close>); the others are Python's.
  \<^verbatim>\<open>AttributeError\<close> is what an attribute access on \<^verbatim>\<open>None\<close> raises.
\<close>

datatype error = TypeError | ValueError | Forbidden | AttributeError

section \<open>Text\<close>

text \<open>
  A Python \<^verbatim>\<open>str\<close> is a list of code points. The model carries the code points below 256
  (\<^typ>\<open>string\<close>); on them \<^verbatim>\<open>str.isspace\<close>, \<^verbatim>\<open>str.lower\<close>, \<^verbatim>\<open>str.strip\<close>, \<^verbatim>\<open>str.split\<close>,
  \<^verbatim>\<open>int\<close> and \<^verbatim>\<open>str\<close> are written out as Python defines them. A message on the wire is the
  UTF-8 encoding of such a text; every message the server sends is produced by
  \<^verbatim>\<open>.encode("utf-8")\<close>, so decoding it gives the text back and the model keeps the text.
\<close>

definition py_isspace :: "char \<Rightarrow> bool" where
  "py_isspace c =
     (let n = (of_char c :: nat)
      in (9 \<le> n \<and> n \<le> 13) \<or> (28 \<le> n \<and> n \<le> 32) \<or> n = 133 \<or> n = 160)"

definition py_lower_char :: "char \<Rightarrow> char" where
  "py_lower_char c =
     (let n = (of_char c :: nat)
      in if (65 \<le> n \<and> n \<le> 90) \<or> (192 \<le> n \<and> n \<le> 222 \<and> n \<noteq> 215)
         then char_of (n + 32) else c)"

definition py_lower :: "string \<Rightarrow> string" where
  "py_lower s = map py_lower_char s"

definition py_strip :: "string \<Rightarrow> string" where
  "py_strip s = rev (dropWhile py_isspace (rev (dropWhile py_isspace s)))"

definition startswith :: "string \<Rightarrow> string \<Rightarrow> bool" where
  "startswith s p = (take (length p) s = p)"

text \<open>\<^verbatim>\<open>s.split()\<close>: the maximal runs of non-whitespace characters, in order.\<close>

fun split_from :: "string \<Rightarrow> string \<Rightarrow> string list" where
  "split_from cur [] = (if cur = [] then [] else [cur])"
| "split_from cur (c # cs) =
     (if py_isspace c then (if cur = [] then split_from [] cs else cur # split_from [] cs)
      else split_from (cur @ [c]) cs)"

definition py_split :: "string \<Rightarrow> string list" where
  "py_split s = split_from [] s"

text \<open>
  \<^verbatim>\<open>int(s)\<close> in base ten: surrounding whitespace is dropped, one sign is allowed, then
  decimal digits, where single underscores may stand between two digits. Leading zeros
  are accepted. Anything else raises \<^verbatim>\<open>ValueError\<close> (here \<open>None\<close>). The whitespace that
  \<^verbatim>\<open>int\<close> drops is narrower than that of \<^verbatim>\<open>strip()\<close>: CPython first turns every
  non-ASCII whitespace character into a space and leaves ASCII characters alone, then
  skips what C's \<^verbatim>\<open>isspace\<close> accepts. So the separators U+001C to U+001F, which
  \<^verbatim>\<open>strip()\<close> removes, make \<^verbatim>\<open>int\<close> fail.
\<close>

definition int_isspace :: "char \<Rightarrow> bool" where
  "int_isspace c =
     (let n = (of_char c :: nat)
      in (9 \<le> n \<and> n \<le> 13) \<or> n = 32 \<or> n = 133 \<or> n = 160)"

definition int_strip :: "string \<Rightarrow> string" where
  "int_strip s = rev (dropWhile int_isspace (rev (dropWhile int_isspace s)))"

definition is_digit :: "char \<Rightarrow> bool" where
  "is_digit c = (48 \<le> (of_char c :: nat) \<and> (of_char c :: nat) \<le> 57)"

datatype scan = AtStart | AfterDigit | AfterUnderscore

fun scan_digits :: "nat \<Rightarrow> scan \<Rightarrow> string \<Rightarrow> nat option" where
  "scan_digits acc st [] = (if st = AfterDigit then Some acc else None)"
| "scan_digits acc st (c # cs) =
     (if is_digit c then scan_digits (10 * acc + (of_char c - 48)) AfterDigit cs
      else if c = CHR ''_'' \<and> st = AfterDigit then scan_digits acc AfterUnderscore cs
      else None)"

definition py_int :: "string \<Rightarrow> int option" where
  "py_int s =
     (case int_strip s of
        [] \<Rightarrow> None
      | c # cs \<Rightarrow>
          if c = CHR ''+'' then map_option int (scan_digits 0 AtStart cs)
          else if c = CHR ''-'' then map_option (\<lambda>n. - int n) (scan_digits 0 AtStart cs)
          else map_option int (scan_digits 0 AtStart (c # cs)))"

text \<open>\<^verbatim>\<open>str(n)\<close> for an integer: the decimal digits without leading zeros, \<^verbatim>\<open>-\<close> first when negative.\<close>

fun nat_digits :: "nat \<Rightarrow> string" where
  "nat_digits n =
     (if n < 10 then [char_of (48 + n)]
      else nat_digits (n div 10) @ [char_of (48 + n mod 10)])"

declare nat_digits.simps [simp del]

definition py_str :: "int \<Rightarrow> string" where
  "py_str i = (if i < 0 then CHR ''-'' # nat_digits (nat (- i)) else nat_digits (nat i))"

section \<open>Permissions\<close>

text \<open>
  \<^verbatim>\<open>class PermissionValues\<close>: the named bits. \<^verbatim>\<open>class Permissions\<close> has the one slot
  \<^verbatim>\<open>_value\<close>; an instance is mutable (\<^verbatim>\<open>update\<close>) and is shared by reference, so instances
  live in the store of section \<open>The store\<close> and the functions here work on the contents.
\<close>

definition READ_MESSAGES :: int where "READ_MESSAGES = 1"
definition SEND_MESSAGES :: int where "SEND_MESSAGES = 2"
definition KICK_MEMBERS :: int where "KICK_MEMBERS = 4"
definition BAN_MEMBERS :: int where "BAN_MEMBERS = 8"
definition CHANGE_NICKNAME :: int where "CHANGE_NICKNAME = 16"
definition MANAGE_NICKNAMES :: int where "MANAGE_NICKNAMES = 32"
definition CHANGE_SETTINGS :: int where "CHANGE_SETTINGS = 64"
definition UPDATE_PERMISSIONS :: int where "UPDATE_PERMISSIONS = 128"
definition PermissionValues_ALL :: int where "PermissionValues_ALL = 255"

record permissions =
  p_value :: int

text \<open>An operand of a comparison: another \<^verbatim>\<open>Permissions\<close>, or anything else (also \<^verbatim>\<open>None\<close>).\<close>

datatype operand = Perm permissions | NotPerm

text \<open>The bit accessors: \<^verbatim>\<open>bool(self._value >> k & 1)\<close>; the shift binds tighter than \<^verbatim>\<open>&\<close>.\<close>

definition read_messages :: "permissions \<Rightarrow> bool" where
  "read_messages p = (drop_bit 0 (p_value p) AND 1 \<noteq> 0)"

definition send_messages :: "permissions \<Rightarrow> bool" where
  "send_messages p = (drop_bit 1 (p_value p) AND 1 \<noteq> 0)"

definition kick_members :: "permissions \<Rightarrow> bool" where
  "kick_members p = (drop_bit 2 (p_value p) AND 1 \<noteq> 0)"

definition ban_members :: "permissions \<Rightarrow> bool" where
  "ban_members p = (drop_bit 3 (p_value p) AND 1 \<noteq> 0)"

definition change_nickname :: "permissions \<Rightarrow> bool" where
  "change_nickname p = (drop_bit 4 (p_value p) AND 1 \<noteq> 0)"

definition manage_nicknames :: "permissions \<Rightarrow> bool" where
  "manage_nicknames p = (drop_bit 5 (p_value p) AND 1 \<noteq> 0)"

definition change_settings :: "permissions \<Rightarrow> bool" where
  "change_settings p = (drop_bit 6 (p_value p) AND 1 \<noteq> 0)"

definition update_permissions :: "permissions \<Rightarrow> bool" where
  "update_permissions p = (drop_bit 7 (p_value p) AND 1 \<noteq> 0)"

definition all_permissions :: "permissions \<Rightarrow> bool" where
  "all_permissions p = (p_value p = PermissionValues_ALL)"

text \<open>\<^verbatim>\<open>__eq__\<close> answers \<^verbatim>\<open>False\<close> for a foreign operand; the order comparisons raise \<^verbatim>\<open>TypeError\<close>.\<close>

definition Permissions_eq :: "permissions \<Rightarrow> operand \<Rightarrow> bool" where
  "Permissions_eq self other =
     (case other of NotPerm \<Rightarrow> False | Perm q \<Rightarrow> p_value self = p_value q)"

definition Permissions_le :: "permissions \<Rightarrow> operand \<Rightarrow> error + bool" where
  "Permissions_le self other =
     (case other of
        NotPerm \<Rightarrow> Inl TypeError
      | Perm q \<Rightarrow> Inr ((p_value self AND p_value q) = p_value self))"

definition Permissions_ge :: "permissions \<Rightarrow> operand \<Rightarrow> error + bool" where
  "Permissions_ge self other =
     (case other of
        NotPerm \<Rightarrow> Inl TypeError
      | Perm q \<Rightarrow> Inr ((p_value self OR p_value q) = p_value self))"

definition Permissions_lt :: "permissions \<Rightarrow> operand \<Rightarrow> error + bool" where
  "Permissions_lt self other =
     (case other of
        NotPerm \<Rightarrow> Inl TypeError
      | Perm q \<Rightarrow> (case Permissions_le self other of
                    Inl e \<Rightarrow> Inl e
                  | Inr b \<Rightarrow> Inr (b \<and> p_value self \<noteq> p_value q)))"

definition Permissions_gt :: "permissions \<Rightarrow> operand \<Rightarrow> error + bool" where
  "Permissions_gt self other =
     (case other of
        NotPerm \<Rightarrow> Inl TypeError
      | Perm q \<Rightarrow> (case Permissions_ge self other of
                    Inl e \<Rightarrow> Inl e
                  | Inr b \<Rightarrow> Inr (b \<and> p_value self \<noteq> p_value q)))"

section \<open>The store\<close>

text \<open>
  Python objects are shared by reference and mutated in place, and two claims depend on
  which references alias. So the state is an explicit store: one map per class from
  addresses to the object's slots, with the next free address of each. An address below
  the counter is an allocated object; a reference is never dangling, so the maps are
  total. A socket is an opaque transport handle, compared by identity.

  \<^verbatim>\<open>uuid4().int\<close> is modelled by a counter: each call returns an identity that no
  earlier call returned (the contract of a UUID; a collision of two random 128-bit values
  is outside the model). The identities issued so far are those below \<open>next_uuid\<close>.

  \<open>outbox\<close> records what \<^verbatim>\<open>socket.send\<close> was given, in order, as (socket, message). The
  transport is an external collaborator that is taken to accept every message.
  \<open>group_var\<close> is the module's global \<^verbatim>\<open>group\<close>.
\<close>

type_synonym sock = nat
type_synonym paddr = nat
type_synonym caddr = nat
type_synonym gaddr = nat

text \<open>\<^verbatim>\<open>class User\<close>: slots \<^verbatim>\<open>_name\<close>, \<^verbatim>\<open>_id\<close>, \<^verbatim>\<open>_socket\<close>.\<close>

record user =
  u_name :: string
  u_id :: int
  u_socket :: sock

text \<open>\<^verbatim>\<open>class Client(User)\<close> adds \<^verbatim>\<open>_group\<close>, \<^verbatim>\<open>_permissions\<close>, \<^verbatim>\<open>_nickname\<close>; each may hold \<^verbatim>\<open>None\<close>.\<close>

record client = user +
  c_group :: "gaddr option"
  c_permissions :: "paddr option"
  c_nickname :: "string option"

text \<open>\<^verbatim>\<open>class Group\<close>: the slots in the order of \<^verbatim>\<open>__slots__\<close>. \<^verbatim>\<open>delete\<close> stores \<^verbatim>\<open>None\<close> in three of them.\<close>

record group =
  g_name :: "string option"
  g_owner :: "caddr option"
  g_clients :: "caddr list"
  g_bans :: "int set"
  g_default_perms :: "paddr option"
  g_is_public :: bool
  g_id :: int

record state =
  perms :: "paddr \<Rightarrow> permissions"
  clients :: "caddr \<Rightarrow> client"
  groups :: "gaddr \<Rightarrow> group"
  next_perm :: paddr
  next_client :: caddr
  next_group :: gaddr
  next_uuid :: int
  outbox :: "(sock \<times> string) list"
  group_var :: "gaddr option"

text \<open>
  A value passed where the source checks the type at run time: \<^verbatim>\<open>None\<close>, a bare
  \<^verbatim>\<open>User\<close> (never mutated by the modelled code, so carried by value), a \<^verbatim>\<open>Client\<close> in the
  store, or an object of another class.
\<close>

datatype pyobj = NoneObj | UserObj user | ClientObj caddr | OtherObj

definition uuid4 :: "state \<Rightarrow> int \<times> state" where
  "uuid4 s = (next_uuid s, s\<lparr>next_uuid := next_uuid s + 1\<rparr>)"

subsection \<open>Permissions objects\<close>

text \<open>\<^verbatim>\<open>Permissions.__init__\<close>: the checks, then the slot. The argument is an \<^verbatim>\<open>int\<close> by type.\<close>

definition Permissions_init :: "int \<Rightarrow> error + permissions" where
  "Permissions_init v =
     (if v < 0 then Inl ValueError
      else if v > PermissionValues_ALL then Inl ValueError
      else Inr \<lparr>p_value = v\<rparr>)"

text \<open>A new instance that the caller keeps a reference to is placed in the store.\<close>

definition new_Permissions :: "int \<Rightarrow> state \<Rightarrow> error + paddr \<times> state" where
  "new_Permissions v s =
     (case Permissions_init v of
        Inl e \<Rightarrow> Inl e
      | Inr p \<Rightarrow> Inr (next_perm s,
                     s\<lparr>perms := (perms s)(next_perm s := p), next_perm := Suc (next_perm s)\<rparr>))"

definition Permissions_all :: "state \<Rightarrow> error + paddr \<times> state" where
  "Permissions_all s = new_Permissions PermissionValues_ALL s"

definition Permissions_default :: "state \<Rightarrow> error + paddr \<times> state" where
  "Permissions_default s = new_Permissions 19 s"

text \<open>\<^verbatim>\<open>Permissions.update\<close> writes the slot of the instance it is called on.\<close>

definition update :: "paddr \<Rightarrow> int \<Rightarrow> state \<Rightarrow> error + state" where
  "update p permission_value s =
     (if permission_value < 0 then Inl ValueError
      else if permission_value > PermissionValues_ALL then Inl ValueError
      else Inr (s\<lparr>perms := (perms s)(p := (perms s p)\<lparr>p_value := permission_value\<rparr>)\<rparr>))"

text \<open>
  \<^verbatim>\<open>a == b\<close> for two slots that hold a \<^verbatim>\<open>Permissions\<close> or \<^verbatim>\<open>None\<close>: \<^verbatim>\<open>None == None\<close> holds,
  \<^verbatim>\<open>Permissions.__eq__\<close> (also reflected) answers \<^verbatim>\<open>False\<close> against \<^verbatim>\<open>None\<close>.
\<close>

definition perm_slot_eq :: "state \<Rightarrow> paddr option \<Rightarrow> paddr option \<Rightarrow> bool" where
  "perm_slot_eq s a b =
     (case a of
        None \<Rightarrow> (case b of None \<Rightarrow> True | Some q \<Rightarrow> False)
      | Some p \<Rightarrow> (case b of None \<Rightarrow> False | Some q \<Rightarrow> Permissions_eq (perms s p) (Perm (perms s q))))"

subsection \<open>User\<close>

definition User_init :: "string \<Rightarrow> sock \<Rightarrow> state \<Rightarrow> error + user \<times> state" where
  "User_init name socket s =
     (if name = [] then Inl ValueError
      else (case uuid4 s of
              (i, s') \<Rightarrow> Inr (\<lparr>u_name = name, u_id = i, u_socket = socket\<rparr>, s')))"

text \<open>
  \<^verbatim>\<open>User.__eq__\<close>, inherited by \<^verbatim>\<open>Client\<close>: two users are equal when their sockets are.
  \<open>self_socket\<close> is \<^verbatim>\<open>self._socket\<close>.
\<close>

definition User_eq :: "state \<Rightarrow> sock \<Rightarrow> pyobj \<Rightarrow> bool" where
  "User_eq s self_socket other =
     (case other of
        UserObj u \<Rightarrow> self_socket = u_socket u
      | ClientObj a \<Rightarrow> self_socket = u_socket (clients s a)
      | NoneObj \<Rightarrow> False
      | OtherObj \<Rightarrow> False)"

text \<open>
  \<^verbatim>\<open>slot == c\<close> where the slot holds a \<^verbatim>\<open>Client\<close> or \<^verbatim>\<open>None\<close> and \<open>c\<close> is a \<^verbatim>\<open>Client\<close>: for
  \<^verbatim>\<open>None\<close> Python falls back to the reflected \<^verbatim>\<open>c.__eq__(None)\<close>, which is \<^verbatim>\<open>False\<close>.
\<close>

definition client_slot_eq :: "state \<Rightarrow> caddr option \<Rightarrow> caddr \<Rightarrow> bool" where
  "client_slot_eq s slot c =
     (case slot of
        None \<Rightarrow> False
      | Some a \<Rightarrow> User_eq s (u_socket (clients s a)) (ClientObj c))"

text \<open>
  \<^verbatim>\<open>exc != client\<close>: no class defines \<^verbatim>\<open>__ne__\<close>, so it is the negation of \<^verbatim>\<open>__eq__\<close>; for
  an object of another class the reflected \<^verbatim>\<open>client.__eq__(exc)\<close> decides, which is \<^verbatim>\<open>False\<close>.
\<close>

definition py_ne :: "state \<Rightarrow> pyobj \<Rightarrow> caddr \<Rightarrow> bool" where
  "py_ne s exc c =
     (case exc of
        UserObj u \<Rightarrow> \<not> User_eq s (u_socket u) (ClientObj c)
      | ClientObj a \<Rightarrow> \<not> User_eq s (u_socket (clients s a)) (ClientObj c)
      | NoneObj \<Rightarrow> True
      | OtherObj \<Rightarrow> True)"

subsection \<open>Client\<close>

text \<open>
  \<^verbatim>\<open>Client.__init__\<close>. \<open>grp\<close> is a \<^verbatim>\<open>Group\<close> by type; \<open>base_permissions\<close> is the content of a
  slot, and \<^verbatim>\<open>None\<close> there fails the \<^verbatim>\<open>isinstance\<close> check. The new member keeps the
  reference it was given: no copy of the \<^verbatim>\<open>Permissions\<close> object is made. The identity
  comes from \<^verbatim>\<open>User.__init__\<close>, so it is a new one.
\<close>

definition Client_init ::
  "string \<Rightarrow> sock \<Rightarrow> gaddr \<Rightarrow> paddr option \<Rightarrow> state \<Rightarrow> error + caddr \<times> state" where
  "Client_init name socket grp base_permissions s =
     (case base_permissions of
        None \<Rightarrow> Inl TypeError
      | Some p \<Rightarrow>
          (case User_init name socket s of
             Inl e \<Rightarrow> Inl e
           | Inr (u, s') \<Rightarrow>
               Inr (next_client s',
                    s'\<lparr>clients := (clients s')(next_client s' :=
                          \<lparr>u_name = u_name u, u_id = u_id u, u_socket = u_socket u,
                           c_group = Some grp, c_permissions = Some p,
                           c_nickname = Some (u_name u)\<rparr>),
                       next_client := Suc (next_client s')\<rparr>)))"

text \<open>\<^verbatim>\<open>is_owner\<close>: \<^verbatim>\<open>self._group.owner == self\<close>.\<close>

definition is_owner :: "caddr \<Rightarrow> state \<Rightarrow> error + bool" where
  "is_owner self s =
     (case c_group (clients s self) of
        None \<Rightarrow> Inl AttributeError
      | Some g \<Rightarrow> Inr (client_slot_eq s (g_owner (groups s g)) self))"

definition set_permissions :: "caddr \<Rightarrow> int \<Rightarrow> state \<Rightarrow> error + state" where
  "set_permissions self new_value s =
     (case c_permissions (clients s self) of
        None \<Rightarrow> Inl AttributeError
      | Some p \<Rightarrow>
          if new_value = p_value (perms s p) then Inr s
          else (case is_owner self s of
                  Inl e \<Rightarrow> Inl e
                | Inr True \<Rightarrow> Inl Forbidden
                | Inr False \<Rightarrow> update p new_value s))"

definition reset_permissions :: "caddr \<Rightarrow> state \<Rightarrow> error + state" where
  "reset_permissions self s =
     (case c_group (clients s self) of
        None \<Rightarrow> Inl AttributeError
      | Some g \<Rightarrow>
          if perm_slot_eq s (c_permissions (clients s self)) (g_default_perms (groups s g))
          then Inr s
          else (case is_owner self s of
                  Inl e \<Rightarrow> Inl e
                | Inr True \<Rightarrow> Inl Forbidden
                | Inr False \<Rightarrow>
                    Inr (s\<lparr>clients := (clients s)(self := (clients s self)
                            \<lparr>c_permissions := g_default_perms (groups s g)\<rparr>)\<rparr>)))"

text \<open>
  \<^verbatim>\<open>list.remove(x)\<close> deletes the first item equal to \<open>x\<close> and raises \<^verbatim>\<open>ValueError\<close> (here
  \<open>None\<close>) when there is none.
\<close>

fun list_remove :: "('a \<Rightarrow> bool) \<Rightarrow> 'a list \<Rightarrow> 'a list option" where
  "list_remove P [] = None"
| "list_remove P (x # xs) =
     (if P x then Some xs else map_option ((#) x) (list_remove P xs))"

text \<open>
  \<^verbatim>\<open>Client._kill\<close>: the member leaves its group's roster (the first entry equal to it, that
  is, with its socket) and its three slots are cleared.
\<close>

definition Client_kill :: "caddr \<Rightarrow> state \<Rightarrow> error + state" where
  "Client_kill self s =
     (case c_group (clients s self) of
        None \<Rightarrow> Inl AttributeError
      | Some g \<Rightarrow>
          (case list_remove (\<lambda>item. User_eq s (u_socket (clients s item)) (ClientObj self))
                  (g_clients (groups s g)) of
             None \<Rightarrow> Inl ValueError
           | Some rest \<Rightarrow>
               Inr (s\<lparr>groups := (groups s)(g := (groups s g)\<lparr>g_clients := rest\<rparr>),
                      clients := (clients s)(self := (clients s self)
                         \<lparr>c_group := None, c_permissions := None, c_nickname := None\<rparr>)\<rparr>)))"

definition kick :: "caddr \<Rightarrow> state \<Rightarrow> error + state" where
  "kick self s =
     (case is_owner self s of
        Inl e \<Rightarrow> Inl e
      | Inr True \<Rightarrow> Inl Forbidden
      | Inr False \<Rightarrow> Client_kill self s)"

text \<open>\<^verbatim>\<open>ban\<close> reads \<^verbatim>\<open>self._group\<close> first, kicks, then records \<^verbatim>\<open>self._id\<close> in that group's bans.\<close>

definition ban :: "caddr \<Rightarrow> state \<Rightarrow> error + state" where
  "ban self s =
     (let grp = c_group (clients s self)
      in case kick self s of
           Inl e \<Rightarrow> Inl e
         | Inr s' \<Rightarrow>
             (case grp of
                None \<Rightarrow> Inl AttributeError
              | Some g \<Rightarrow>
                  Inr (s'\<lparr>groups := (groups s')(g := (groups s' g)
                          \<lparr>g_bans := insert (u_id (clients s' self)) (g_bans (groups s' g))\<rparr>)\<rparr>)))"

text \<open>\<^verbatim>\<open>send\<close>: a message that is empty after \<^verbatim>\<open>strip()\<close> is dropped, any other goes to the socket.\<close>

definition send :: "caddr \<Rightarrow> string \<Rightarrow> state \<Rightarrow> state" where
  "send self message s =
     (if py_strip message = [] then s
      else s\<lparr>outbox := outbox s @ [(u_socket (clients s self), message)]\<rparr>)"

subsection \<open>Group\<close>

text \<open>
  \<^verbatim>\<open>Group.__init__\<close>. The object exists (at a new address) before its slots are filled,
  and the founder's \<^verbatim>\<open>Client\<close> refers to it. The owner gets a \<^verbatim>\<open>Permissions.all()\<close> of its
  own, the group a \<^verbatim>\<open>Permissions.default()\<close>.
\<close>

definition Group_init :: "string \<Rightarrow> pyobj \<Rightarrow> state \<Rightarrow> error + gaddr \<times> state" where
  "Group_init name owner s =
     (if name = [] then Inl ValueError
      else (case owner of
              UserObj u \<Rightarrow>
                (let self = next_group s; s0 = s\<lparr>next_group := Suc (next_group s)\<rparr>
                 in case Permissions_all s0 of
                      Inl e \<Rightarrow> Inl e
                    | Inr (pa, s1) \<Rightarrow>
                 (case Client_init (u_name u) (u_socket u) self (Some pa) s1 of
                      Inl e \<Rightarrow> Inl e
                    | Inr (ow, s2) \<Rightarrow>
                 (case Permissions_default s2 of
                      Inl e \<Rightarrow> Inl e
                    | Inr (pd, s3) \<Rightarrow>
                 (case uuid4 s3 of
                      (i, s4) \<Rightarrow>
                        Inr (self,
                             s4\<lparr>groups := (groups s4)(self :=
                                  \<lparr>g_name = Some name, g_owner = Some ow, g_clients = [ow],
                                   g_bans = {}, g_default_perms = Some pd,
                                   g_is_public = True, g_id = i\<rparr>)\<rparr>)))))
            | ClientObj a \<Rightarrow> Inl TypeError
            | NoneObj \<Rightarrow> Inl TypeError
            | OtherObj \<Rightarrow> Inl TypeError))"

text \<open>\<^verbatim>\<open>get_index_of\<close>: the index of the first roster entry with the socket, or \<^verbatim>\<open>None\<close>.\<close>

fun index_from :: "('a \<Rightarrow> bool) \<Rightarrow> 'a list \<Rightarrow> nat \<Rightarrow> nat option" where
  "index_from P [] i = None"
| "index_from P (x # xs) i = (if P x then Some i else index_from P xs (Suc i))"

definition get_index_of :: "gaddr \<Rightarrow> sock \<Rightarrow> state \<Rightarrow> nat option" where
  "get_index_of self socket s =
     index_from (\<lambda>cl. u_socket (clients s cl) = socket) (g_clients (groups s self)) 0"

text \<open>
  \<^verbatim>\<open>Group.add\<close>. A \<^verbatim>\<open>Client\<close> is returned as it is; a roster member equal to the user (same
  socket) is returned instead of a new one; a banned identity is refused; otherwise a
  new \<^verbatim>\<open>Client\<close> is built with the group's \<^verbatim>\<open>_default_perms\<close> object itself and appended.
\<close>

definition add :: "gaddr \<Rightarrow> pyobj \<Rightarrow> state \<Rightarrow> error + caddr \<times> state" where
  "add self user s =
     (case user of
        NoneObj \<Rightarrow> Inl TypeError
      | OtherObj \<Rightarrow> Inl TypeError
      | ClientObj a \<Rightarrow> Inr (a, s)
      | UserObj u \<Rightarrow>
          (case find (\<lambda>member. User_eq s (u_socket (clients s member)) (UserObj u))
                  (g_clients (groups s self)) of
             Some member \<Rightarrow> Inr (member, s)
           | None \<Rightarrow>
               if u_id u \<in> g_bans (groups s self) then Inl Forbidden
               else (case Client_init (u_name u) (u_socket u) self
                            (g_default_perms (groups s self)) s of
                       Inl e \<Rightarrow> Inl e
                     | Inr (member, s') \<Rightarrow>
                         Inr (member,
                              s'\<lparr>groups := (groups s')(self := (groups s' self)
                                   \<lparr>g_clients := g_clients (groups s' self) @ [member]\<rparr>)\<rparr>))))"

text \<open>\<^verbatim>\<open>search_member\<close>: the first member with the nickname and its index, or \<^verbatim>\<open>(-1, None)\<close>.\<close>

fun search_from :: "state \<Rightarrow> string \<Rightarrow> caddr list \<Rightarrow> int \<Rightarrow> int \<times> caddr option" where
  "search_from s string [] i = (- 1, None)"
| "search_from s string (member # rest) i =
     (if c_nickname (clients s member) = Some string then (i, Some member)
      else search_from s string rest (i + 1))"

definition search_member :: "gaddr \<Rightarrow> string \<Rightarrow> state \<Rightarrow> int \<times> caddr option" where
  "search_member self string s = search_from s string (g_clients (groups s self)) 0"

definition change_default_permissions :: "gaddr \<Rightarrow> int \<Rightarrow> state \<Rightarrow> error + state" where
  "change_default_permissions self new_value s =
     (case g_default_perms (groups s self) of
        None \<Rightarrow> Inl AttributeError
      | Some p \<Rightarrow>
          if new_value = p_value (perms s p) then Inr s
          else update p new_value s)"

text \<open>
  \<^verbatim>\<open>transfer_ownership\<close>: the only check on \<open>new_owner\<close> is \<^verbatim>\<open>isinstance(new_owner, Client)\<close>.
\<close>

definition transfer_ownership :: "gaddr \<Rightarrow> pyobj \<Rightarrow> state \<Rightarrow> error + state" where
  "transfer_ownership self new_owner s =
     (case new_owner of
        NoneObj \<Rightarrow> Inl TypeError
      | OtherObj \<Rightarrow> Inl TypeError
      | UserObj u \<Rightarrow> Inl TypeError
      | ClientObj n \<Rightarrow>
          if client_slot_eq s (g_owner (groups s self)) n then Inr s
          else (case Permissions_all s of
                  Inl e \<Rightarrow> Inl e
                | Inr (p, s') \<Rightarrow>
                    Inr (s'\<lparr>clients := (clients s')(n := (clients s' n)\<lparr>c_permissions := Some p\<rparr>),
                           groups := (groups s')(self := (groups s' self)\<lparr>g_owner := Some n\<rparr>)\<rparr>)))"

text \<open>
  \<^verbatim>\<open>Group.delete\<close>. The \<^verbatim>\<open>for\<close> loop iterates over \<^verbatim>\<open>self._clients\<close> itself, the list that
  \<^verbatim>\<open>_kill\<close> removes from. A Python list iterator keeps an index: each round it compares
  the index with the current length, yields the item at the index and advances. The
  loop below does the same on the list as it is in the store at that moment.
\<close>

lemma list_remove_length:
  "list_remove P xs = Some ys \<Longrightarrow> length ys < length xs"
  by (induction xs arbitrary: ys) (auto split: if_splits)

lemma Client_kill_roster_length:
  "Client_kill m s = Inr s' \<Longrightarrow>
   length (g_clients (groups s' g)) \<le> length (g_clients (groups s g))"
  by (auto simp: Client_kill_def split: option.splits dest!: list_remove_length)

function delete_loop :: "gaddr \<Rightarrow> nat \<Rightarrow> state \<Rightarrow> error + state" where
  "delete_loop self i s =
     (if i < length (g_clients (groups s self))
      then (case Client_kill (g_clients (groups s self) ! i) s of
              Inl e \<Rightarrow> Inl e
            | Inr s' \<Rightarrow> delete_loop self (Suc i) s')
      else Inr s)"
  by pat_completeness auto
termination
proof (relation "measure (\<lambda>(self, i, s). length (g_clients (groups s self)) - i)")
  show "wf (measure (\<lambda>(self, i, s). length (g_clients (groups s self)) - i))"
    by simp
next
  fix self :: gaddr and i :: nat and s s' :: state
  assume "i < length (g_clients (groups s self))"
    and "Client_kill (g_clients (groups s self) ! i) s = Inr s'"
  then show "((self, Suc i, s'), (self, i, s))
             \<in> measure (\<lambda>(self, i, s). length (g_clients (groups s self)) - i)"
    using Client_kill_roster_length [of "g_clients (groups s self) ! i" s s' self] by simp
qed

declare delete_loop.simps [simp del]

definition delete :: "gaddr \<Rightarrow> state \<Rightarrow> error + state" where
  "delete self s =
     (let s0 = s\<lparr>groups := (groups s)(self := (groups s self)
                   \<lparr>g_name := None, g_owner := None, g_default_perms := None,
                    g_is_public := False, g_id := 0\<rparr>)\<rparr>
      in case delete_loop self 0 s0 of
           Inl e \<Rightarrow> Inl e
         | Inr s1 \<Rightarrow>
             Inr (s1\<lparr>groups := (groups s1)(self := (groups s1 self)
                      \<lparr>g_clients := [], g_bans := {}\<rparr>)\<rparr>))"

subsection \<open>The remaining mutators\<close>

text \<open>
  \<^verbatim>\<open>User.set_name\<close> (inherited by \<^verbatim>\<open>Client\<close>), \<^verbatim>\<open>Client.set_nickname\<close>, \<^verbatim>\<open>Client.reset_nickname\<close>,
  \<^verbatim>\<open>Group.change_name\<close>, \<^verbatim>\<open>Group.make_public\<close> and \<^verbatim>\<open>Group.make_private\<close>. The string
  arguments are \<^verbatim>\<open>str\<close> by type. \<^verbatim>\<open>set_nickname\<close> walks \<^verbatim>\<open>self._group.clients\<close> and raises
  \<^verbatim>\<open>Forbidden\<close> at the first member that has the nickname.
\<close>

definition set_name :: "caddr \<Rightarrow> string \<Rightarrow> state \<Rightarrow> error + state" where
  "set_name self new_name s =
     (if new_name = u_name (clients s self) then Inr s
      else if new_name = [] then Inl ValueError
      else Inr (s\<lparr>clients := (clients s)(self := (clients s self)\<lparr>u_name := new_name\<rparr>)\<rparr>))"

definition set_nickname :: "caddr \<Rightarrow> string \<Rightarrow> state \<Rightarrow> error + state" where
  "set_nickname self new_nickname s =
     (if new_nickname = [] then Inl ValueError
      else if c_nickname (clients s self) = Some new_nickname then Inr s
      else (case c_group (clients s self) of
              None \<Rightarrow> Inl AttributeError
            | Some g \<Rightarrow>
                if list_ex (\<lambda>user. c_nickname (clients s user) = Some new_nickname)
                     (g_clients (groups s g))
                then Inl Forbidden
                else Inr (s\<lparr>clients := (clients s)(self := (clients s self)
                            \<lparr>c_nickname := Some new_nickname\<rparr>)\<rparr>)))"

definition reset_nickname :: "caddr \<Rightarrow> state \<Rightarrow> state" where
  "reset_nickname self s =
     (if c_nickname (clients s self) = Some (u_name (clients s self)) then s
      else s\<lparr>clients := (clients s)(self := (clients s self)
                \<lparr>c_nickname := Some (u_name (clients s self))\<rparr>)\<rparr>)"

definition change_name :: "gaddr \<Rightarrow> string \<Rightarrow> state \<Rightarrow> error + state" where
  "change_name self new_name s =
     (if Some new_name = g_name (groups s self) then Inr s
      else if new_name = [] then Inl ValueError
      else Inr (s\<lparr>groups := (groups s)(self := (groups s self)\<lparr>g_name := Some new_name\<rparr>)\<rparr>))"

definition make_public :: "gaddr \<Rightarrow> state \<Rightarrow> state" where
  "make_public self s =
     (if \<not> g_is_public (groups s self)
      then s\<lparr>groups := (groups s)(self := (groups s self)\<lparr>g_is_public := True\<rparr>)\<rparr>
      else s)"

definition make_private :: "gaddr \<Rightarrow> state \<Rightarrow> state" where
  "make_private self s =
     (if g_is_public (groups s self)
      then s\<lparr>groups := (groups s)(self := (groups s self)\<lparr>g_is_public := False\<rparr>)\<rparr>
      else s)"

section \<open>The server\<close>

text \<open>
  \<^verbatim>\<open>broadcast(message, exc)\<close> walks \<^verbatim>\<open>group.clients\<close>, a tuple copied from the roster when the
  loop starts, and sends to each client that may read and is not \<open>exc\<close>. \<^verbatim>\<open>send\<close> changes
  only the outbox, so the condition is read in the state as it is at each round.
\<close>

fun broadcast_loop :: "string \<Rightarrow> pyobj \<Rightarrow> caddr list \<Rightarrow> state \<Rightarrow> error + state" where
  "broadcast_loop message exc [] s = Inr s"
| "broadcast_loop message exc (cl # rest) s =
     (case c_permissions (clients s cl) of
        None \<Rightarrow> Inl AttributeError
      | Some p \<Rightarrow>
          if read_messages (perms s p) \<and> (exc = NoneObj \<or> py_ne s exc cl)
          then broadcast_loop message exc rest (send cl message s)
          else broadcast_loop message exc rest s)"

definition broadcast :: "string \<Rightarrow> pyobj \<Rightarrow> state \<Rightarrow> error + state" where
  "broadcast message exc s =
     (case group_var s of
        None \<Rightarrow> Inl AttributeError
      | Some g \<Rightarrow> broadcast_loop message exc (g_clients (groups s g)) s)"

subsection \<open>The command loop\<close>

text \<open>
  One round of \<^verbatim>\<open>handle\<close> receives a message, takes \<^verbatim>\<open>decoded = message.decode("utf-8").strip()\<close>
  (an empty one is skipped) and \<^verbatim>\<open>lowered = decoded.lower()\<close>, and runs the first branch of
  its \<^verbatim>\<open>if\<close> chain whose test holds. \<open>dispatch\<close> is that chain of tests, in the order of the
  source.
\<close>

datatype command =
    CmdId | CmdInfo | CmdQuit | CmdDelete
  | CmdNickBare | CmdKickBare | CmdBanBare | CmdSetpermsBare | CmdSetownerBare
  | CmdNick | CmdKick | CmdBan | CmdSetperms | CmdSetowner
  | CmdUnknown | CmdMessage

definition dispatch :: "string \<Rightarrow> command" where
  "dispatch lowered =
     (if lowered = ''/id'' \<or> startswith lowered ''/id '' then CmdId
      else if lowered = ''/info'' \<or> startswith lowered ''/info '' then CmdInfo
      else if lowered = ''/quit'' \<or> startswith lowered ''/quit '' then CmdQuit
      else if lowered = ''/delete'' \<or> startswith lowered ''/delete '' then CmdDelete
      else if lowered = ''/nick'' then CmdNickBare
      else if lowered = ''/kick'' then CmdKickBare
      else if lowered = ''/ban'' then CmdBanBare
      else if lowered = ''/setperms'' then CmdSetpermsBare
      else if lowered = ''/setowner'' then CmdSetownerBare
      else if startswith lowered ''/nick '' then CmdNick
      else if startswith lowered ''/kick '' then CmdKick
      else if startswith lowered ''/ban '' then CmdBan
      else if startswith lowered ''/setperms '' then CmdSetperms
      else if startswith lowered ''/setowner '' then CmdSetowner
      else if startswith lowered ''/'' \<and> lowered \<noteq> ''/'' then CmdUnknown
      else CmdMessage)"

text \<open>
  The colour and effect codes come from the library \<^verbatim>\<open>sty\<close> (\<^verbatim>\<open>fg.red\<close>, \<^verbatim>\<open>fg.rs\<close>, \<^verbatim>\<open>ef.bold\<close>, ...),
  which is not part of the repository: they are parameters of the model.
\<close>

record sty =
  fg_red :: string
  fg_green :: string
  fg_rs :: string
  ef_bold :: string
  ef_rs :: string

text \<open>\<^verbatim>\<open>"{0}".format(x)\<close> for a nickname slot: \<^verbatim>\<open>None\<close> prints as \<^verbatim>\<open>None\<close>.\<close>

definition format_nickname :: "string option \<Rightarrow> string" where
  "format_nickname n = (case n of None \<Rightarrow> ''None'' | Some x \<Rightarrow> x)"

text \<open>
  The branch \<^verbatim>\<open>if lowered.startswith("/setperms "):\<close> of \<^verbatim>\<open>handle\<close>, up to its \<^verbatim>\<open>continue\<close>.
  \<open>grp\<close> is the global \<^verbatim>\<open>group\<close> and \<open>cl\<close> is \<^verbatim>\<open>group.clients[index]\<close>, the member whose
  socket the handler serves. The number is the first whitespace-separated token after
  the command; the nickname is what follows \<^verbatim>\<open>11 + len(str(number))\<close> characters, where
  \<open>number\<close> is by then the integer, not the token. \<^verbatim>\<open>Permissions(number)\<close> is a temporary
  that only the comparison reads. An exception leaves the branch (\<open>Inl\<close>); the handler's
  \<^verbatim>\<open>except\<close> clause, which is not modelled, then tears the connection down.
\<close>

definition handle_setperms :: "sty \<Rightarrow> gaddr \<Rightarrow> caddr \<Rightarrow> string \<Rightarrow> state \<Rightarrow> error + state" where
  "handle_setperms st grp cl decoded s =
     (case c_permissions (clients s cl) of
        None \<Rightarrow> Inl AttributeError
      | Some cp \<Rightarrow>
     if \<not> update_permissions (perms s cp)
     then Inr (send cl (fg_red st @ ''Permission denied!'' @ fg_rs st) s)
     else (case py_split (drop 10 decoded) of
        [] \<Rightarrow> Inr (send cl (fg_red st @ ''No number specified!'' @ fg_rs st) s)
      | tok # toks \<Rightarrow>
     (case (case py_int tok of
              None \<Rightarrow> None
            | Some n \<Rightarrow> if n < 0 \<or> n > PermissionValues_ALL then None else Some n) of
        None \<Rightarrow> Inr (send cl (fg_red st @ ''Permission value not recognised!'' @ fg_rs st) s)
      | Some number \<Rightarrow>
     (case Permissions_init number of
        Inl e \<Rightarrow> Inl e
      | Inr requested \<Rightarrow>
     (case Permissions_ge (perms s cp) (Perm requested) of
        Inl e \<Rightarrow> Inl e
      | Inr False \<Rightarrow>
          Inr (send cl (fg_red st @ ''Cannot change permissions you do not have!'' @ fg_rs st) s)
      | Inr True \<Rightarrow>
     (case search_member grp (drop (11 + length (py_str number)) decoded) s of
        (index, None) \<Rightarrow> Inr (send cl (fg_red st @ ''User not found!'' @ fg_rs st) s)
      | (index, Some member) \<Rightarrow>
     if User_eq s (u_socket (clients s cl)) (ClientObj member)
     then Inr (send cl (fg_red st @ ''You cannot change yourself permissions!'' @ fg_rs st) s)
     else (case is_owner member s of
        Inl e \<Rightarrow> Inl e
      | Inr True \<Rightarrow>
          Inr (send cl (fg_red st @ ''Owner cannot be changed permissions!'' @ fg_rs st) s)
      | Inr False \<Rightarrow>
     (case c_permissions (clients s member) of
        None \<Rightarrow> Inl TypeError
      | Some mp \<Rightarrow>
     (case Permissions_le (perms s mp) (Perm (perms s cp)) of
        Inl e \<Rightarrow> Inl e
      | Inr False \<Rightarrow>
          Inr (send cl (fg_red st @
            ''Cannot set these permissions for member as they have permissions you do not have!''
            @ fg_rs st) s)
      | Inr True \<Rightarrow>
     (case set_permissions member number s of
        Inl e \<Rightarrow> Inl e
      | Inr s' \<Rightarrow>
          broadcast (fg_green st @ ef_bold st @ format_nickname (c_nickname (clients s' member))
                     @ '' now has permissions value '' @ py_str number @ ''!''
                     @ ef_rs st @ fg_rs st) NoneObj s'))))))))))"

section \<open>Sequences of operations\<close>

text \<open>
  What a program can do to the store between two calls: build a \<^verbatim>\<open>User\<close> or a \<^verbatim>\<open>Group\<close>,
  and call any mutator of \<^verbatim>\<open>Group\<close>, \<^verbatim>\<open>Client\<close> and \<^verbatim>\<open>Permissions\<close> on any object with any
  argument, except \<^verbatim>\<open>Group.delete\<close>. (\<^verbatim>\<open>broadcast\<close> is a sequence of \<^verbatim>\<open>send\<close>s.) Each of these
  methods raises, if it does, before its first write, so a call that raises leaves the
  store as it was: \<open>step\<close> then returns the state unchanged. \<open>run\<close> performs a list of
  operations in order.
\<close>

datatype operation =
    NewUser string sock
  | NewGroup string pyobj
  | Add gaddr pyobj
  | ChangeName gaddr string
  | ChangeDefaultPermissions gaddr int
  | MakePublic gaddr
  | MakePrivate gaddr
  | TransferOwnership gaddr pyobj
  | SetName caddr string
  | SetPermissions caddr int
  | ResetPermissions caddr
  | SetNickname caddr string
  | ResetNickname caddr
  | Kick caddr
  | Ban caddr
  | Kill caddr
  | Send caddr string
  | Update paddr int

fun perform :: "operation \<Rightarrow> state \<Rightarrow> error + state" where
  "perform (NewUser name socket) s = map_sum id snd (User_init name socket s)"
| "perform (NewGroup name owner) s = map_sum id snd (Group_init name owner s)"
| "perform (Add g user) s = map_sum id snd (add g user s)"
| "perform (ChangeName g new_name) s = change_name g new_name s"
| "perform (ChangeDefaultPermissions g new_value) s = change_default_permissions g new_value s"
| "perform (MakePublic g) s = Inr (make_public g s)"
| "perform (MakePrivate g) s = Inr (make_private g s)"
| "perform (TransferOwnership g new_owner) s = transfer_ownership g new_owner s"
| "perform (SetName c new_name) s = set_name c new_name s"
| "perform (SetPermissions c new_value) s = set_permissions c new_value s"
| "perform (ResetPermissions c) s = reset_permissions c s"
| "perform (SetNickname c new_nickname) s = set_nickname c new_nickname s"
| "perform (ResetNickname c) s = Inr (reset_nickname c s)"
| "perform (Kick c) s = kick c s"
| "perform (Ban c) s = ban c s"
| "perform (Kill c) s = Client_kill c s"
| "perform (Send c message) s = Inr (send c message s)"
| "perform (Update p permission_value) s = update p permission_value s"

definition step :: "operation \<Rightarrow> state \<Rightarrow> state" where
  "step op s = (case perform op s of Inl e \<Rightarrow> s | Inr s' \<Rightarrow> s')"


section \<open>Observations\<close>

text \<open>\<^verbatim>\<open>member.permissions.value\<close>, when the member has permissions.\<close>

definition permissions_value :: "state \<Rightarrow> caddr \<Rightarrow> int option" where
  "permissions_value s member =
     (case c_permissions (clients s member) of
        None \<Rightarrow> None
      | Some p \<Rightarrow> Some (p_value (perms s p)))"

text \<open>
  The members of a roster that \<^verbatim>\<open>broadcast\<close> selects: those whose permissions have the
  read bit and that are not the excluded one, in roster order.
\<close>

definition may_read :: "state \<Rightarrow> caddr \<Rightarrow> bool" where
  "may_read s cl =
     (case c_permissions (clients s cl) of
        None \<Rightarrow> False
      | Some p \<Rightarrow> read_messages (perms s p))"

definition recipients :: "pyobj \<Rightarrow> caddr list \<Rightarrow> state \<Rightarrow> caddr list" where
  "recipients exc roster s =
     filter (\<lambda>cl. may_read s cl \<and> (exc = NoneObj \<or> py_ne s exc cl)) roster"

text \<open>Whether some member of the roster of \<open>g\<close> holds the socket \<open>k\<close>.\<close>

definition socket_in_roster :: "gaddr \<Rightarrow> sock \<Rightarrow> state \<Rightarrow> bool" where
  "socket_in_roster g k s =
     (k \<in> set (map (\<lambda>member. u_socket (clients s member)) (g_clients (groups s g))))"

text \<open>
  What every operation keeps of an allocated group \<open>g\<close>: its bans only grow, its default
  permissions stay the same object, and \<open>g\<close> stays allocated.
\<close>

definition keeps :: "gaddr \<Rightarrow> state \<Rightarrow> state \<Rightarrow> bool" where
  "keeps g s s' =
     (g_bans (groups s g) \<subseteq> g_bans (groups s' g)
      \<and> g_default_perms (groups s' g) = g_default_perms (groups s g)
      \<and> next_group s \<le> next_group s')"

section \<open>A run of the server\<close>

text \<open>
  The states of a short run, written out. \<open>empty_state\<close> is the store before the first
  connection. In \<open>alice_state\<close> the user alice (socket 1) has connected first and
  \<^verbatim>\<open>receive\<close> has built \<^verbatim>\<open>Group("Default", User("alice", socket))\<close>: the group is object 0,
  alice's member object 0 with a \<^verbatim>\<open>Permissions\<close> of its own (object 0, value 255), the
  group's default \<^verbatim>\<open>Permissions\<close> is object 1 (value 19). In \<open>bob_state\<close> the user bob
  (socket 2) has joined through \<^verbatim>\<open>group.add(User("bob", socket))\<close>: member object 1, whose
  permissions slot holds object 1, the group's default. \<open>kicked_state\<close> and
  \<open>banned_state\<close> follow \<open>bob_state\<close> by \<^verbatim>\<open>kick\<close> and by \<^verbatim>\<open>ban\<close> of bob. The lemmas of
  section \<open>Auxiliary facts\<close> show that the model's functions produce exactly these states.
\<close>

definition empty_state :: state where
  "empty_state =
     \<lparr>perms = (\<lambda>a. \<lparr>p_value = 0\<rparr>),
      clients = (\<lambda>a. \<lparr>u_name = [], u_id = 0, u_socket = 0, c_group = None,
                        c_permissions = None, c_nickname = None\<rparr>),
      groups = (\<lambda>a. \<lparr>g_name = None, g_owner = None, g_clients = [], g_bans = {},
                       g_default_perms = None, g_is_public = False, g_id = 0\<rparr>),
      next_perm = 0, next_client = 0, next_group = 0, next_uuid = 1,
      outbox = [], group_var = None\<rparr>"

definition alice_user :: user where
  "alice_user = \<lparr>u_name = ''alice'', u_id = 1, u_socket = 1\<rparr>"

definition bob_user :: user where
  "bob_user = \<lparr>u_name = ''bob'', u_id = 4, u_socket = 2\<rparr>"

definition alice_state :: state where
  "alice_state =
     \<lparr>perms = (\<lambda>a. \<lparr>p_value = 0\<rparr>)(0 := \<lparr>p_value = 255\<rparr>, 1 := \<lparr>p_value = 19\<rparr>),
      clients = (\<lambda>a. \<lparr>u_name = [], u_id = 0, u_socket = 0, c_group = None,
                        c_permissions = None, c_nickname = None\<rparr>)
        (0 := \<lparr>u_name = ''alice'', u_id = 2, u_socket = 1, c_group = Some 0,
               c_permissions = Some 0, c_nickname = Some ''alice''\<rparr>),
      groups = (\<lambda>a. \<lparr>g_name = None, g_owner = None, g_clients = [], g_bans = {},
                       g_default_perms = None, g_is_public = False, g_id = 0\<rparr>)
        (0 := \<lparr>g_name = Some ''Default'', g_owner = Some 0, g_clients = [0], g_bans = {},
               g_default_perms = Some 1, g_is_public = True, g_id = 3\<rparr>),
      next_perm = 2, next_client = 1, next_group = 1, next_uuid = 4,
      outbox = [], group_var = Some 0\<rparr>"

definition bob_state :: state where
  "bob_state =
     \<lparr>perms = (\<lambda>a. \<lparr>p_value = 0\<rparr>)(0 := \<lparr>p_value = 255\<rparr>, 1 := \<lparr>p_value = 19\<rparr>),
      clients = (\<lambda>a. \<lparr>u_name = [], u_id = 0, u_socket = 0, c_group = None,
                        c_permissions = None, c_nickname = None\<rparr>)
        (0 := \<lparr>u_name = ''alice'', u_id = 2, u_socket = 1, c_group = Some 0,
               c_permissions = Some 0, c_nickname = Some ''alice''\<rparr>,
         1 := \<lparr>u_name = ''bob'', u_id = 5, u_socket = 2, c_group = Some 0,
               c_permissions = Some 1, c_nickname = Some ''bob''\<rparr>),
      groups = (\<lambda>a. \<lparr>g_name = None, g_owner = None, g_clients = [], g_bans = {},
                       g_default_perms = None, g_is_public = False, g_id = 0\<rparr>)
        (0 := \<lparr>g_name = Some ''Default'', g_owner = Some 0, g_clients = [0, 1], g_bans = {},
               g_default_perms = Some 1, g_is_public = True, g_id = 3\<rparr>),
      next_perm = 2, next_client = 2, next_group = 1, next_uuid = 6,
      outbox = [], group_var = Some 0\<rparr>"

definition kicked_state :: state where
  "kicked_state =
     \<lparr>perms = (\<lambda>a. \<lparr>p_value = 0\<rparr>)(0 := \<lparr>p_value = 255\<rparr>, 1 := \<lparr>p_value = 19\<rparr>),
      clients = (\<lambda>a. \<lparr>u_name = [], u_id = 0, u_socket = 0, c_group = None,
                        c_permissions = None, c_nickname = None\<rparr>)
        (0 := \<lparr>u_name = ''alice'', u_id = 2, u_socket = 1, c_group = Some 0,
               c_permissions = Some 0, c_nickname = Some ''alice''\<rparr>,
         1 := \<lparr>u_name = ''bob'', u_id = 5, u_socket = 2, c_group = None,
               c_permissions = None, c_nickname = None\<rparr>),
      groups = (\<lambda>a. \<lparr>g_name = None, g_owner = None, g_clients = [], g_bans = {},
                       g_default_perms = None, g_is_public = False, g_id = 0\<rparr>)
        (0 := \<lparr>g_name = Some ''Default'', g_owner = Some 0, g_clients = [0], g_bans = {},
               g_default_perms = Some 1, g_is_public = True, g_id = 3\<rparr>),
      next_perm = 2, next_client = 2, next_group = 1, next_uuid = 6,
      outbox = [], group_var = Some 0\<rparr>"

definition banned_state :: state where
  "banned_state =
     kicked_state\<lparr>groups := (groups kicked_state)
        (0 := (groups kicked_state 0)\<lparr>g_bans := {5}\<rparr>)\<rparr>"

section \<open>Auxiliary facts\<close>

lemmas init_defs = User_init_def Group_init_def uuid4_def Permissions_all_def
  Permissions_default_def new_Permissions_def Permissions_init_def PermissionValues_ALL_def
  Client_init_def add_def User_eq_def

lemmas member_defs = kick_def ban_def is_owner_def Client_kill_def client_slot_eq_def User_eq_def

subsection \<open>The run\<close>

lemma alice_state_reachable:
  "User_init ''alice'' 1 empty_state = Inr (alice_user, empty_state\<lparr>next_uuid := 2\<rparr>)
   \<and> (case Group_init ''Default'' (UserObj alice_user) (empty_state\<lparr>next_uuid := 2\<rparr>) of
        Inl e \<Rightarrow> False
      | Inr (g, s) \<Rightarrow> g = 0 \<and> s\<lparr>group_var := Some g\<rparr> = alice_state)"
  by (simp add: init_defs empty_state_def alice_user_def alice_state_def Let_def)

lemma bob_state_reachable:
  "User_init ''bob'' 2 alice_state = Inr (bob_user, alice_state\<lparr>next_uuid := 5\<rparr>)
   \<and> add 0 (UserObj bob_user) (alice_state\<lparr>next_uuid := 5\<rparr>) = Inr (1, bob_state)"
  by (simp add: init_defs bob_user_def alice_state_def bob_state_def Let_def)

lemma kicked_state_reachable: "kick 1 bob_state = Inr kicked_state"
  by (simp add: member_defs bob_state_def kicked_state_def)

lemma banned_state_reachable: "ban 1 bob_state = Inr banned_state"
  by (simp add: member_defs bob_state_def kicked_state_def banned_state_def Let_def)

subsection \<open>Blank messages\<close>

lemma py_strip_Nil_iff: "py_strip s = [] \<longleftrightarrow> list_all py_isspace s"
proof (cases "dropWhile py_isspace s = []")
  case True
  have "py_strip s = []"
    unfolding py_strip_def True by simp
  moreover have "list_all py_isspace s"
    using True by (simp add: dropWhile_eq_Nil_conv list_all_iff)
  ultimately show ?thesis
    by simp
next
  case False
  then have "\<not> py_isspace (hd (dropWhile py_isspace s))"
    by (rule hd_dropWhile)
  moreover have "hd (dropWhile py_isspace s) \<in> set (dropWhile py_isspace s)"
    using False by simp
  ultimately have "\<not> (\<forall>x \<in> set (dropWhile py_isspace s). py_isspace x)"
    by blast
  moreover have "\<not> list_all py_isspace s"
    using False by (simp add: dropWhile_eq_Nil_conv list_all_iff)
  ultimately show ?thesis
    by (simp add: py_strip_def dropWhile_eq_Nil_conv)
qed

lemma visible_reply: "\<not> py_isspace c \<Longrightarrow> py_strip (a @ c # b) \<noteq> []"
  by (simp add: py_strip_Nil_iff)

subsection \<open>Sending changes the outbox only\<close>

lemma send_frame [simp]:
  "clients (send c m s) = clients s" "perms (send c m s) = perms s"
  "groups (send c m s) = groups s" "group_var (send c m s) = group_var s"
  by (simp_all add: send_def)

lemma py_ne_send [simp]: "py_ne (send c m s) exc cl = py_ne s exc cl"
  by (simp add: py_ne_def User_eq_def split: pyobj.splits)

lemma may_read_send [simp]: "may_read (send c m s) cl = may_read s cl"
  by (simp add: may_read_def split: option.splits)

lemma recipients_send [simp]: "recipients exc cs (send c m s) = recipients exc cs s"
  by (simp add: recipients_def)

lemma broadcast_loop_outbox:
  "list_all (\<lambda>cl. c_permissions (clients s cl) \<noteq> None) cs \<Longrightarrow>
   broadcast_loop msg exc cs s =
     Inr (s\<lparr>outbox := outbox s @
            (if py_strip msg = [] then []
             else map (\<lambda>cl. (u_socket (clients s cl), msg)) (recipients exc cs s))\<rparr>)"
proof (induction cs arbitrary: s)
  case Nil
  then show ?case by (simp add: recipients_def)
next
  case (Cons c cs)
  from Cons.prems obtain p where p: "c_permissions (clients s c) = Some p"
    and rest: "list_all (\<lambda>cl. c_permissions (clients s cl) \<noteq> None) cs"
    by auto
  have rest': "list_all (\<lambda>cl. c_permissions (clients (send c msg s) cl) \<noteq> None) cs"
    using rest by simp
  have head: "recipients exc (c # cs) s =
      (if read_messages (perms s p) \<and> (exc = NoneObj \<or> py_ne s exc c)
       then c # recipients exc cs s else recipients exc cs s)"
    using p by (simp add: recipients_def may_read_def)
  have step: "broadcast_loop msg exc (c # cs) s =
      (if read_messages (perms s p) \<and> (exc = NoneObj \<or> py_ne s exc c)
       then broadcast_loop msg exc cs (send c msg s) else broadcast_loop msg exc cs s)"
    using p by simp
  have sent: "broadcast_loop msg exc cs (send c msg s) =
      Inr (s\<lparr>outbox := outbox s @
            (if py_strip msg = [] then []
             else (u_socket (clients s c), msg) #
                  map (\<lambda>cl. (u_socket (clients s cl), msg)) (recipients exc cs s))\<rparr>)"
  proof -
    have "broadcast_loop msg exc cs (send c msg s) =
      Inr ((send c msg s)\<lparr>outbox := outbox (send c msg s) @
            (if py_strip msg = [] then []
             else map (\<lambda>cl. (u_socket (clients s cl), msg)) (recipients exc cs s))\<rparr>)"
      using Cons.IH [OF rest'] by simp
    then show ?thesis by (simp add: send_def)
  qed
  show ?case
    unfolding step head using sent Cons.IH [OF rest] by simp
qed

subsection \<open>Joining, kicking and banning\<close>

lemma find_socket_None:
  "\<not> socket_in_roster g (u_socket u) s \<Longrightarrow>
   find (\<lambda>member. User_eq s (u_socket (clients s member)) (UserObj u))
     (g_clients (groups s g)) = None"
  by (force simp: socket_in_roster_def find_None_iff User_eq_def)

lemma ban_result:
  assumes "ban m s = Inr s'" and "c_group (clients s m) = Some g"
  shows "g_bans (groups s' g) = insert (u_id (clients s m)) (g_bans (groups s g))"
  using assms
  by (auto simp: ban_def kick_def is_owner_def Client_kill_def Let_def
           split: sum.splits bool.splits option.splits if_splits)


lemma add_new_member:
  assumes "\<not> socket_in_roster g (u_socket u) s"
    and "u_id u \<notin> g_bans (groups s g)"
    and "u_name u \<noteq> []"
    and "g_default_perms (groups s g) = Some p"
  shows "\<exists>s'. add g (UserObj u) s = Inr (next_client s, s')
            \<and> g_clients (groups s' g) = g_clients (groups s g) @ [next_client s]
            \<and> u_id (clients s' (next_client s)) = next_uuid s
            \<and> c_group (clients s' (next_client s)) = Some g
            \<and> g_bans (groups s' g) = g_bans (groups s g)"
  using assms find_socket_None [OF assms(1)]
  by (simp add: add_def Client_init_def User_init_def uuid4_def)

lemma add_Inr_new:
  assumes "add g (UserObj u) s = Inr (m, s')"
    and "\<not> socket_in_roster g (u_socket u) s"
  shows "u_id u \<notin> g_bans (groups s g) \<and> u_name u \<noteq> []
       \<and> g_default_perms (groups s g) \<noteq> None"
  using assms find_socket_None [OF assms(2)]
  by (auto simp: add_def Client_init_def User_init_def split: if_splits option.splits)


subsection \<open>What the operations keep\<close>

lemma keeps_refl [simp]: "keeps g s s"
  by (simp add: keeps_def)












section \<open>Default permissions and existing members\<close>

text \<open>
  Claim C1. After \<^verbatim>\<open>change_default_permissions\<close> is called with a new value, the
  permission value of every existing non-owner member should be what it was before.
  The code does not keep that: \<^verbatim>\<open>Group.add\<close> hands the group's \<^verbatim>\<open>_default_perms\<close> object
  itself to the new member, and \<^verbatim>\<open>change_default_permissions\<close> updates that object in
  place. In \<open>bob_state\<close> the member bob (object 1) is not the owner and has the value 19;
  after \<^verbatim>\<open>change_default_permissions(63)\<close> on the group his value is 63.
\<close>

theorem default_permissions_shared:
  "is_owner 1 bob_state = Inr False
   \<and> permissions_value bob_state 1 = Some 19
   \<and> \<not> isl (change_default_permissions 0 63 bob_state)
   \<and> permissions_value (projr (change_default_permissions 0 63 bob_state)) 1 = Some 63"
  by (simp add: member_defs bob_state_def permissions_value_def change_default_permissions_def
        update_def PermissionValues_ALL_def)

section \<open>Deleting a group\<close>

text \<open>
  Claim C2. After \<^verbatim>\<open>Group.delete()\<close> the roster and the bans are empty and every member
  that was in the roster should be destroyed (group, permissions and nickname cleared).
  The code clears the two collections, but its loop walks the very list that \<^verbatim>\<open>_kill\<close>
  removes from, so it skips every second member. In \<open>bob_state\<close> (roster alice, bob)
  \<^verbatim>\<open>delete\<close> returns with alice destroyed and bob untouched: bob still refers to the
  group, to his permissions and to his nickname.
\<close>

theorem delete_skips_second_member:
  "\<not> isl (delete 0 bob_state)
   \<and> g_clients (groups (projr (delete 0 bob_state)) 0) = []
   \<and> g_bans (groups (projr (delete 0 bob_state)) 0) = {}
   \<and> c_group (clients (projr (delete 0 bob_state)) 0) = None
   \<and> c_group (clients (projr (delete 0 bob_state)) 1) = Some 0
   \<and> c_permissions (clients (projr (delete 0 bob_state)) 1) = Some 1
   \<and> c_nickname (clients (projr (delete 0 bob_state)) 1) = Some ''bob''"
  by (simp add: delete_def delete_loop.simps member_defs bob_state_def Let_def)

section \<open>The owner's permissions\<close>

text \<open>
  Claim C3, as amended. For the member that is the owner of its group,
  \<^verbatim>\<open>set_permissions(new_value)\<close> fails with \<^verbatim>\<open>Forbidden\<close> for every \<open>new_value\<close> that differs
  from the owner's current permission value, and returns without any effect when
  \<open>new_value\<close> is the current value; \<^verbatim>\<open>reset_permissions()\<close> fails with \<^verbatim>\<open>Forbidden\<close> unless
  the owner's permissions equal the group's default permissions, in which case it
  returns without any effect. (Both methods test for "nothing to change" before they
  test for the owner.)
\<close>

theorem owner_permissions_guard:
  assumes "is_owner m s = Inr True"
    and "c_group (clients s m) = Some g"
    and "c_permissions (clients s m) = Some p"
  shows "set_permissions m v s = (if v = p_value (perms s p) then Inr s else Inl Forbidden)
       \<and> reset_permissions m s =
           (if perm_slot_eq s (Some p) (g_default_perms (groups s g)) then Inr s
            else Inl Forbidden)"
  using assms by (simp add: set_permissions_def reset_permissions_def)

text \<open>
  The amended statement at the owner alice of \<open>alice_state\<close>, whose value is 255 while the
  default is 19.
\<close>

theorem owner_permissions_guard_witness:
  "is_owner 0 alice_state = Inr True
   \<and> c_group (clients alice_state 0) = Some 0
   \<and> c_permissions (clients alice_state 0) = Some 0
   \<and> set_permissions 0 19 alice_state = Inl Forbidden
   \<and> set_permissions 0 255 alice_state = Inr alice_state
   \<and> reset_permissions 0 alice_state = Inl Forbidden"
proof -
  have a: "is_owner 0 alice_state = Inr True"
    by (simp add: member_defs alice_state_def)
  have b: "c_group (clients alice_state 0) = Some 0"
    by (simp add: alice_state_def)
  have c: "c_permissions (clients alice_state 0) = Some 0"
    by (simp add: alice_state_def)
  have v: "p_value (perms alice_state 0) = 255"
    "perm_slot_eq alice_state (Some 0) (g_default_perms (groups alice_state 0)) = False"
    by (simp_all add: perm_slot_eq_def Permissions_eq_def alice_state_def)
  show ?thesis
    using owner_permissions_guard [OF a b c, of 19] owner_permissions_guard [OF a b c, of 255]
      a b c v by simp
qed

text \<open>
  The claim as first stated fails: alice is the owner with the value 255, and
  \<^verbatim>\<open>set_permissions(255)\<close> on her returns normally instead of raising \<^verbatim>\<open>Forbidden\<close>.
\<close>

theorem owner_set_permissions_same_value:
  "is_owner 0 alice_state = Inr True
   \<and> permissions_value alice_state 0 = Some 255
   \<and> set_permissions 0 255 alice_state = Inr alice_state
   \<and> set_permissions 0 255 alice_state \<noteq> Inl Forbidden"
  by (simp add: member_defs set_permissions_def permissions_value_def alice_state_def)

section \<open>Transferring ownership\<close>

text \<open>
  Claim C4, as amended. \<^verbatim>\<open>transfer_ownership(new_owner)\<close> fails with \<^verbatim>\<open>TypeError\<close> whenever
  \<open>new_owner\<close> is not a \<^verbatim>\<open>Client\<close> object (\<^verbatim>\<open>None\<close>, a bare \<^verbatim>\<open>User\<close>, anything else); it does
  not look at the roster. When \<open>new_owner\<close> is a member of the roster that is not equal
  to the owner, it succeeds, gives \<open>new_owner\<close> permissions with all bits set, makes it
  the owner and leaves the roster as it is.
\<close>

theorem transfer_ownership_type_check:
  assumes "n \<in> set (g_clients (groups s g))"
    and "\<not> client_slot_eq s (g_owner (groups s g)) n"
  shows "transfer_ownership g NoneObj s = Inl TypeError
       \<and> transfer_ownership g OtherObj s = Inl TypeError
       \<and> transfer_ownership g (UserObj u) s = Inl TypeError
       \<and> (\<exists>s' p. transfer_ownership g (ClientObj n) s = Inr s'
             \<and> g_owner (groups s' g) = Some n
             \<and> c_permissions (clients s' n) = Some p
             \<and> p_value (perms s' p) = PermissionValues_ALL
             \<and> g_clients (groups s' g) = g_clients (groups s g))"
  using assms
  by (simp add: transfer_ownership_def Permissions_all_def new_Permissions_def
        Permissions_init_def PermissionValues_ALL_def)

text \<open>The amended statement at \<open>bob_state\<close>, for the member bob and the bare user bob.\<close>

theorem transfer_ownership_type_check_witness:
  "1 \<in> set (g_clients (groups bob_state 0))
   \<and> \<not> client_slot_eq bob_state (g_owner (groups bob_state 0)) 1
   \<and> transfer_ownership 0 (UserObj bob_user) bob_state = Inl TypeError
   \<and> (\<exists>s' p. transfer_ownership 0 (ClientObj 1) bob_state = Inr s'
         \<and> g_owner (groups s' 0) = Some 1
         \<and> c_permissions (clients s' 1) = Some p
         \<and> p_value (perms s' p) = PermissionValues_ALL
         \<and> g_clients (groups s' 0) = g_clients (groups bob_state 0))"
proof -
  have a: "1 \<in> set (g_clients (groups bob_state 0))"
    by (simp add: bob_state_def)
  have b: "\<not> client_slot_eq bob_state (g_owner (groups bob_state 0)) 1"
    by (simp add: client_slot_eq_def User_eq_def bob_state_def)
  show ?thesis
    using transfer_ownership_type_check [OF a b, of bob_user] a b by simp
qed

text \<open>
  The claim as first stated fails: after bob was kicked he is a destroyed member outside
  the roster, and \<^verbatim>\<open>transfer_ownership(bob)\<close> raises nothing and makes him the owner.
\<close>

theorem transfer_to_kicked_member:
  "kick 1 bob_state = Inr kicked_state
   \<and> 1 \<notin> set (g_clients (groups kicked_state 0))
   \<and> c_group (clients kicked_state 1) = None
   \<and> transfer_ownership 0 (ClientObj 1) kicked_state \<noteq> Inl TypeError
   \<and> \<not> isl (transfer_ownership 0 (ClientObj 1) kicked_state)
   \<and> g_owner (groups (projr (transfer_ownership 0 (ClientObj 1) kicked_state)) 0) = Some 1"
  using kicked_state_reachable
  by (simp add: transfer_ownership_def client_slot_eq_def User_eq_def kicked_state_def
        Permissions_all_def new_Permissions_def Permissions_init_def PermissionValues_ALL_def)

section \<open>Ban and kick\<close>




section \<open>The command /setperms\<close>

text \<open>
  Claim C6. A line \<^verbatim>\<open>/setperms <value> <nickname>\<close> from an actor with the
  \<^verbatim>\<open>update_permissions\<close> bit, whose number token parses to \<open>v\<close> in 0..255 within the
  actor's permissions, and whose nickname is that of a member other than the actor and
  the owner with permissions below the actor's, should set that member's value to \<open>v\<close>.
  The code finds the nickname by skipping \<^verbatim>\<open>11 + len(str(number))\<close> characters, the
  length of the number as \<^verbatim>\<open>str\<close> prints it and not of the token that was read. For the
  line \<^verbatim>\<open>/setperms 007 bob\<close> from the owner alice in \<open>bob_state\<close> every condition of the
  claim holds (the token parses to 7, alice holds all bits, bob is found by his nickname,
  is not alice, is not the owner and has 19), yet the handler looks for the nickname
  \<^verbatim>\<open>7 bob\<close>, answers "User not found!" and leaves bob's value at 19.
\<close>

theorem setperms_leading_zeros:
  "dispatch (py_lower ''/setperms 007 bob'') = CmdSetperms
   \<and> update_permissions (perms bob_state 0)
   \<and> py_int ''007'' = Some 7
   \<and> Permissions_ge (perms bob_state 0) (Perm \<lparr>p_value = 7\<rparr>) = Inr True
   \<and> search_member 0 ''bob'' bob_state = (1, Some 1)
   \<and> is_owner 1 bob_state = Inr False
   \<and> Permissions_le (perms bob_state 1) (Perm (perms bob_state 0)) = Inr True
   \<and> handle_setperms st 0 0 ''/setperms 007 bob'' bob_state =
       Inr (bob_state\<lparr>outbox := [(1, fg_red st @ ''User not found!'' @ fg_rs st)]\<rparr>)
   \<and> permissions_value bob_state 1 = Some 19"
proof -
  have cmd: "dispatch (py_lower ''/setperms 007 bob'') = CmdSetperms"
    by code_simp
  have tok: "py_split (drop 10 ''/setperms 007 bob'') = [''007'', ''bob'']"
    by code_simp
  have num: "py_int ''007'' = Some 7"
    by code_simp
  have len: "11 + length (py_str 7) = 12"
    by code_simp
  have vis: "py_strip (fg_red st @ ''User not found!'' @ fg_rs st) \<noteq> []"
    using visible_reply [of "CHR ''U''" "fg_red st" "''ser not found!'' @ fg_rs st"]
    by (simp add: py_isspace_def)
  have bob: "search_member 0 ''bob'' bob_state = (1, Some 1)"
    by (simp add: search_member_def bob_state_def)
  have srch: "search_member 0 (drop 12 ''/setperms 007 bob'') bob_state = (- 1, None)"
    by (simp add: search_member_def bob_state_def)
  have upd: "update_permissions (perms bob_state 0)"
    by (simp add: update_permissions_def bob_state_def)
  have ge: "Permissions_ge (perms bob_state 0) (Perm \<lparr>p_value = 7\<rparr>) = Inr True"
    by (simp add: Permissions_ge_def bob_state_def)
  have le: "Permissions_le (perms bob_state 1) (Perm (perms bob_state 0)) = Inr True"
    by (simp add: Permissions_le_def bob_state_def)
  have own: "is_owner 1 bob_state = Inr False"
    by (simp add: member_defs bob_state_def)
  have cp: "c_permissions (clients bob_state 0) = Some 0" "u_socket (clients bob_state 0) = 1"
    "outbox bob_state = []"
    by (simp_all add: bob_state_def)
  have h: "handle_setperms st 0 0 ''/setperms 007 bob'' bob_state =
       Inr (bob_state\<lparr>outbox := [(1, fg_red st @ ''User not found!'' @ fg_rs st)]\<rparr>)"
    unfolding handle_setperms_def
    using vis srch upd ge cp tok num len
    by (simp add: Permissions_init_def PermissionValues_ALL_def send_def)
  have pv: "permissions_value bob_state 1 = Some 19"
    by (simp add: permissions_value_def bob_state_def)
  show ?thesis
    using cmd upd num ge bob own le h pv by simp
qed

text \<open>
  For comparison, the same request with the number written as \<^verbatim>\<open>str\<close> prints it is
  carried out: bob's value becomes 7 and both members are told.
\<close>

lemma setperms_canonical_example:
  "\<exists>s'. handle_setperms st 0 0 ''/setperms 7 bob'' bob_state = Inr s'
      \<and> permissions_value s' 1 = Some 7
      \<and> outbox s' =
          [(1, fg_green st @ ef_bold st @ ''bob now has permissions value 7!''
                 @ ef_rs st @ fg_rs st),
           (2, fg_green st @ ef_bold st @ ''bob now has permissions value 7!''
                 @ ef_rs st @ fg_rs st)]"
proof -
  let ?msg = "fg_green st @ ef_bold st @ ''bob now has permissions value 7!''
                @ ef_rs st @ fg_rs st"
  let ?s1 = "bob_state\<lparr>perms := (perms bob_state)(1 := \<lparr>p_value = 7\<rparr>)\<rparr>"
  have tok: "py_split (drop 10 ''/setperms 7 bob'') = [''7'', ''bob'']"
    by code_simp
  have num: "py_int ''7'' = Some 7"
    by code_simp
  have str: "py_str 7 = ''7''"
    by code_simp
  have vis: "py_strip ?msg \<noteq> []"
    using visible_reply [of "CHR ''b''" "fg_green st @ ef_bold st"
        "''ob now has permissions value 7!'' @ ef_rs st @ fg_rs st"]
    by (simp add: py_isspace_def)
  have srch: "search_member 0 ''bob'' bob_state = (1, Some 1)"
    by (simp add: search_member_def bob_state_def)
  have upd: "update_permissions (perms bob_state 0)"
    by (simp add: update_permissions_def bob_state_def)
  have ge: "Permissions_ge (perms bob_state 0) (Perm \<lparr>p_value = 7\<rparr>) = Inr True"
    by (simp add: Permissions_ge_def bob_state_def)
  have le: "Permissions_le (perms bob_state 1) (Perm (perms bob_state 0)) = Inr True"
    by (simp add: Permissions_le_def bob_state_def)
  have own: "is_owner 1 bob_state = Inr False"
    by (simp add: member_defs bob_state_def)
  have cp: "c_permissions (clients bob_state 0) = Some 0"
    "c_permissions (clients bob_state 1) = Some 1"
    "\<not> User_eq bob_state (u_socket (clients bob_state 0)) (ClientObj 1)"
    by (simp_all add: bob_state_def User_eq_def)
  have setp: "set_permissions 1 7 bob_state = Inr ?s1"
    using own by (simp add: set_permissions_def update_def PermissionValues_ALL_def bob_state_def)
  have nick: "format_nickname (c_nickname (clients ?s1 1)) = ''bob''"
    by (simp add: format_nickname_def bob_state_def)
  have bc: "broadcast ?msg NoneObj ?s1 = Inr (?s1\<lparr>outbox := [(1, ?msg), (2, ?msg)]\<rparr>)"
    using vis by (simp add: broadcast_def read_messages_def send_def bob_state_def)
  have h: "handle_setperms st 0 0 ''/setperms 7 bob'' bob_state
           = Inr (?s1\<lparr>outbox := [(1, ?msg), (2, ?msg)]\<rparr>)"
    unfolding handle_setperms_def
    using tok num str srch upd ge le own cp setp nick bc
    by (simp add: Permissions_init_def PermissionValues_ALL_def)
  show ?thesis
    unfolding h by (simp add: permissions_value_def bob_state_def)
qed

section \<open>The order on permissions\<close>

text \<open>
  Claim C7. For all permission sets \<open>A\<close> and \<open>B\<close>, \<open>A <= B\<close> returns whether
  \<open>A.value & B.value == A.value\<close>. Consequently \<open>A <= A\<close> always holds, and \<open>A <= B\<close>
  together with \<open>B <= A\<close> holds exactly when the two values are equal. The relation is a
  partial order: it is also transitive (\<open>A <= B\<close> and \<open>B <= C\<close> give \<open>A <= C\<close>). It is not
  total: the values 1 and 2 are incomparable.
\<close>

theorem Permissions_le_partial_order:
  "Permissions_le A (Perm B) = Inr ((p_value A AND p_value B) = p_value A)
   \<and> Permissions_le A (Perm A) = Inr True
   \<and> ((Permissions_le A (Perm B) = Inr True \<and> Permissions_le B (Perm A) = Inr True)
        = (p_value A = p_value B))
   \<and> (Permissions_le A (Perm B) = Inr True \<and> Permissions_le B (Perm C) = Inr True
        \<longrightarrow> Permissions_le A (Perm C) = Inr True)
   \<and> Permissions_le \<lparr>p_value = 1\<rparr> (Perm \<lparr>p_value = 2\<rparr>) = Inr False
   \<and> Permissions_le \<lparr>p_value = 2\<rparr> (Perm \<lparr>p_value = 1\<rparr>) = Inr False"
proof -
  have anti: "(p_value A AND p_value B) = p_value A \<and> (p_value B AND p_value A) = p_value B
              \<longleftrightarrow> p_value A = p_value B"
    by (metis and.commute and.idem)
  have trans: "p_value A AND p_value C = p_value A"
    if ab: "p_value A AND p_value B = p_value A" and bc: "p_value B AND p_value C = p_value B"
  proof -
    have "p_value A AND p_value C = (p_value A AND p_value B) AND p_value C"
      using ab by simp
    also have "\<dots> = p_value A AND (p_value B AND p_value C)"
      by (simp add: and.assoc)
    also have "\<dots> = p_value A"
      using ab bc by simp
    finally show ?thesis .
  qed
  show ?thesis
    using anti trans by (simp add: Permissions_le_def)
qed

text \<open>
  The statement at the values 1, 3 and 7: 1 is below 3 and 3 below 7, so 1 is below 7,
  while 3 is not below 1.
\<close>

theorem Permissions_le_partial_order_witness:
  "Permissions_le \<lparr>p_value = 1\<rparr> (Perm \<lparr>p_value = 3\<rparr>) = Inr True
   \<and> Permissions_le \<lparr>p_value = 3\<rparr> (Perm \<lparr>p_value = 7\<rparr>) = Inr True
   \<and> Permissions_le \<lparr>p_value = 1\<rparr> (Perm \<lparr>p_value = 7\<rparr>) = Inr True
   \<and> Permissions_le \<lparr>p_value = 3\<rparr> (Perm \<lparr>p_value = 1\<rparr>) = Inr False
   \<and> Permissions_le \<lparr>p_value = 1\<rparr> (Perm \<lparr>p_value = 1\<rparr>) = Inr True"
proof -
  have a: "Permissions_le \<lparr>p_value = 1\<rparr> (Perm \<lparr>p_value = 3\<rparr>) = Inr True"
    by (simp add: Permissions_le_def)
  have b: "Permissions_le \<lparr>p_value = 3\<rparr> (Perm \<lparr>p_value = 7\<rparr>) = Inr True"
    by (simp add: Permissions_le_def)
  have c: "Permissions_le \<lparr>p_value = 3\<rparr> (Perm \<lparr>p_value = 1\<rparr>) = Inr False"
    by (simp add: Permissions_le_def)
  show ?thesis
    using Permissions_le_partial_order
      [of "\<lparr>p_value = 1\<rparr>" "\<lparr>p_value = 3\<rparr>" "\<lparr>p_value = 7\<rparr>"] a b c
    by simp
qed

section \<open>Broadcast\<close>

text \<open>
  Claim C8, as amended. When a group is active and every member of its roster has
  permissions, \<^verbatim>\<open>broadcast(message, exc)\<close> returns, and for every message that is not
  blank (not empty after \<^verbatim>\<open>strip()\<close>) it hands the message to the sockets of exactly the
  members of the roster that have the read bit and are not equal to \<open>exc\<close>, once each,
  in roster order; a blank message is handed to no socket.
\<close>

theorem broadcast_delivery:
  assumes "group_var s = Some g"
    and "list_all (\<lambda>cl. c_permissions (clients s cl) \<noteq> None) (g_clients (groups s g))"
  shows "broadcast message exc s =
     Inr (s\<lparr>outbox := outbox s @
            (if py_strip message = [] then []
             else map (\<lambda>cl. (u_socket (clients s cl), message))
                    (recipients exc (g_clients (groups s g)) s))\<rparr>)"
  using assms broadcast_loop_outbox [of s "g_clients (groups s g)" message exc]
  by (simp add: broadcast_def)

text \<open>
  The amended statement at \<open>bob_state\<close>: a message from alice, who is excluded, reaches
  bob's socket and no other.
\<close>

theorem broadcast_delivery_witness:
  "group_var bob_state = Some 0
   \<and> list_all (\<lambda>cl. c_permissions (clients bob_state cl) \<noteq> None)
        (g_clients (groups bob_state 0))
   \<and> py_strip ''hi'' \<noteq> []
   \<and> recipients (ClientObj 0) (g_clients (groups bob_state 0)) bob_state = [1]
   \<and> broadcast ''hi'' (ClientObj 0) bob_state = Inr (bob_state\<lparr>outbox := [(2, ''hi'')]\<rparr>)"
proof -
  have g: "group_var bob_state = Some 0"
    by (simp add: bob_state_def)
  have p: "list_all (\<lambda>cl. c_permissions (clients bob_state cl) \<noteq> None)
             (g_clients (groups bob_state 0))"
    by (simp add: bob_state_def)
  have v: "py_strip ''hi'' \<noteq> []"
    by code_simp
  have r: "recipients (ClientObj 0) (g_clients (groups bob_state 0)) bob_state = [1]"
    by (simp add: recipients_def may_read_def read_messages_def py_ne_def User_eq_def
          bob_state_def)
  have o: "outbox bob_state = []" "u_socket (clients bob_state 1) = 2"
    by (simp_all add: bob_state_def)
  show ?thesis
    using broadcast_delivery [OF g p, of "''hi''" "ClientObj 0"] g p v r o by simp
qed

text \<open>
  The claim as first stated, for every message, fails: in \<open>alice_state\<close> the member alice
  has the read bit and nobody is excluded, but the message of one space is handed to
  no socket.
\<close>

theorem broadcast_blank_message:
  "recipients NoneObj (g_clients (groups alice_state 0)) alice_state = [0]
   \<and> broadcast '' '' NoneObj alice_state = Inr alice_state
   \<and> outbox alice_state = []"
proof -
  have b: "py_strip '' '' = []"
    by code_simp
  have r: "recipients NoneObj (g_clients (groups alice_state 0)) alice_state = [0]"
    by (simp add: recipients_def may_read_def read_messages_def alice_state_def)
  have l: "broadcast '' '' NoneObj alice_state = Inr (send 0 '' '' alice_state)"
    by (simp add: broadcast_def read_messages_def alice_state_def)
  have "send 0 '' '' alice_state = alice_state"
    using b by (simp add: send_def)
  then show ?thesis
    using r l by (simp add: alice_state_def)
qed

section \<open>The identity of a new member\<close>

text \<open>
  Claim C10. When \<^verbatim>\<open>Group.add(u)\<close> admits a user \<open>u\<close> (a \<^verbatim>\<open>User\<close> built earlier, so its
  identity is one already issued, on a socket no member holds), the member it returns
  has a newly generated identity, different from the identity of \<open>u\<close>; and if that member
  is banned later, the identity that enters the bans is the member's, and the identity
  of \<open>u\<close> is not among the bans.
\<close>

theorem add_gives_fresh_identity:
  assumes "add g (UserObj u) s = Inr (m, s')"
    and "\<not> socket_in_roster g (u_socket u) s"
    and "u_id u < next_uuid s"
  shows "u_id (clients s' m) = next_uuid s
       \<and> u_id (clients s' m) \<noteq> u_id u
       \<and> (\<forall>s''. ban m s' = Inr s'' \<longrightarrow>
             g_bans (groups s'' g) = insert (u_id (clients s' m)) (g_bans (groups s g))
             \<and> u_id u \<notin> g_bans (groups s'' g))"
proof -
  from add_Inr_new [OF assms(1,2)] obtain p where
    nb: "u_id u \<notin> g_bans (groups s g)" and nm: "u_name u \<noteq> []"
    and p: "g_default_perms (groups s g) = Some p" by auto
  from add_new_member [OF assms(2) nb nm p] assms(1)
  have m: "m = next_client s" and i: "u_id (clients s' m) = next_uuid s"
    and grp: "c_group (clients s' m) = Some g"
    and bans: "g_bans (groups s' g) = g_bans (groups s g)" by auto
  have ne: "u_id (clients s' m) \<noteq> u_id u" using i assms(3) by simp
  have "g_bans (groups s'' g) = insert (u_id (clients s' m)) (g_bans (groups s g))
        \<and> u_id u \<notin> g_bans (groups s'' g)" if b: "ban m s' = Inr s''" for s''
    using ban_result [OF b grp] bans nb ne by auto
  then show ?thesis using i ne by blast
qed

text \<open>
  At the run: the user bob was built with the identity 4, the member that \<^verbatim>\<open>add\<close> returns
  for him has the identity 5, and banning him puts 5 into the bans.
\<close>

theorem add_gives_fresh_identity_witness:
  "add 0 (UserObj bob_user) (alice_state\<lparr>next_uuid := 5\<rparr>) = Inr (1, bob_state)
   \<and> \<not> socket_in_roster 0 (u_socket bob_user) (alice_state\<lparr>next_uuid := 5\<rparr>)
   \<and> u_id bob_user < next_uuid (alice_state\<lparr>next_uuid := 5\<rparr>)
   \<and> u_id bob_user = 4
   \<and> u_id (clients bob_state 1) = 5
   \<and> ban 1 bob_state = Inr banned_state
   \<and> g_bans (groups banned_state 0) = {5}"
proof -
  have a: "add 0 (UserObj bob_user) (alice_state\<lparr>next_uuid := 5\<rparr>) = Inr (1, bob_state)"
    using bob_state_reachable by simp
  have b: "\<not> socket_in_roster 0 (u_socket bob_user) (alice_state\<lparr>next_uuid := 5\<rparr>)"
    by (simp add: socket_in_roster_def bob_user_def alice_state_def)
  have c: "u_id bob_user < next_uuid (alice_state\<lparr>next_uuid := 5\<rparr>)"
    by (simp add: bob_user_def)
  have d: "g_bans (groups (alice_state\<lparr>next_uuid := 5\<rparr>) 0) = {}"
    by (simp add: alice_state_def)
  show ?thesis
    using add_gives_fresh_identity [OF a b c] a b c d banned_state_reachable
    by (simp add: bob_user_def)
qed

end
